theory Spec2Isabelle
  imports Main "HOL-Library.Word"
begin

unbundle bit_operations_syntax

section \<open>Bytes and arbitrary-precision integers\<close>

text \<open>
  A Go \<^verbatim>\<open>[]byte\<close> is a list of 8-bit words; a nil slice and an empty slice are both
  the empty list (the code only ever looks at their length and contents).  A
  \<^verbatim>\<open>*big.Int\<close> is an \<^typ>\<open>int\<close>; where the code tests such a pointer against nil
  the model uses \<^typ>\<open>int option\<close>.
\<close>

type_synonym byte = "8 word"

text \<open>\<^verbatim>\<open>x.Cmp(y)\<close>: -1, 0 or +1.\<close>

definition Cmp :: "int \<Rightarrow> int \<Rightarrow> int" where
  "Cmp x y = (if x < y then - 1 else if x = y then 0 else 1)"

text \<open>\<^verbatim>\<open>x.Sign()\<close>: -1, 0 or +1.\<close>

definition Sign :: "int \<Rightarrow> int" where
  "Sign x = (if x < 0 then - 1 else if x = 0 then 0 else 1)"

text \<open>\<^verbatim>\<open>new(big.Int).SetBytes(buf)\<close>: the bytes read as a big-endian unsigned integer.\<close>

definition SetBytes :: "byte list \<Rightarrow> int" where
  "SetBytes buf = foldl (\<lambda>z b. z * 256 + uint b) 0 buf"

text \<open>\<^verbatim>\<open>x.Bytes()\<close>: the absolute value as a big-endian byte slice without leading zeros.\<close>

fun be_bytes :: "nat \<Rightarrow> byte list" where
  "be_bytes n = (if n = 0 then [] else be_bytes (n div 256) @ [of_nat (n mod 256)])"

declare be_bytes.simps [simp del]

definition Bytes :: "int \<Rightarrow> byte list" where
  "Bytes x = be_bytes (nat \<bar>x\<bar>)"

text \<open>
  Modelled from the spec: \<^verbatim>\<open>math.PaddedBigBytes\<close> (package lib/math of this repository)
  is not under src/.  The spec has \<^verbatim>\<open>encodePrivateKey\<close> serialise the scalar ``as a
  fixed-width big-endian byte sequence padded to the curve's coordinate width'': the
  big-endian bytes, padded on the left with zero bytes up to \<open>n\<close> bytes (a value that needs
  more than \<open>n\<close> bytes is not cut).
\<close>

definition PaddedBigBytes :: "int \<Rightarrow> nat \<Rightarrow> byte list" where
  "PaddedBigBytes bigint n = replicate (n - length (Bytes bigint)) 0 @ Bytes bigint"

text \<open>
  A slice expression \<^verbatim>\<open>s[lo:]\<close> panics at run time when \<open>lo\<close> exceeds the length of
  \<open>s\<close>; the panic is a value of the model.
\<close>

datatype panic = SliceBoundsOutOfRange nat nat

definition slice_from :: "nat \<Rightarrow> 'a list \<Rightarrow> panic + 'a list" where
  "slice_from lo s = (if lo > length s then Inl (SliceBoundsOutOfRange lo (length s)) else Inr (drop lo s))"

section \<open>Curve constants\<close>

definition secp256k1N :: int where
  "secp256k1N = 0xfffffffffffffffffffffffffffffffebaaedce6af48a03bbfd25e8cd0364141"

text \<open>\<^verbatim>\<open>new(big.Int).Div(secp256k1N, big.NewInt(2))\<close>: Euclidean division, on positive
  operands the same as \<open>div\<close>.\<close>

definition secp256k1halfN :: int where
  "secp256k1halfN = secp256k1N div 2"

text \<open>
  Modelled from the spec: \<^verbatim>\<open>chain_common.Big1\<close> (package lib/chain_common of this
  repository) is not under src/.  Rule 1 of the signature validator rejects \<open>r < 1\<close> or
  \<open>s < 1\<close>, so the constant is the integer one.
\<close>

definition Big1 :: int where
  "Big1 = 1"

text \<open>
  Modelled from the spec: \<^verbatim>\<open>S256()\<close> (the curve of this repository's secp256k1 package)
  is not under src/.  \<^verbatim>\<open>priv.Params().BitSize\<close> is the bit width of a coordinate; the
  spec gives the coordinate byte width as 32 bytes for the reference curve.
\<close>

datatype curve = S256

fun BitSize :: "curve \<Rightarrow> int" where
  "BitSize S256 = 256"

text \<open>
  Modelled from the spec: \<^verbatim>\<open>ScalarBaseMult\<close> of \<^verbatim>\<open>S256()\<close> is not under src/.  The spec
  has the decoder ``compute the public point as \<open>D\<close> times the curve's base point'' and
  fail ``if the result is the point at infinity'', which the curve library signals by
  returning no coordinates.  So the result is decided by the value of the scalar bytes
  read as a big-endian integer; the multiple of the base point itself, \<open>k \<mapsto> k \<cdot> G\<close>, is
  the parameter \<open>base_mult\<close>.
\<close>

datatype point = Infinity | Affine int int

definition S256_ScalarBaseMult :: "(int \<Rightarrow> point) \<Rightarrow> byte list \<Rightarrow> int option \<times> int option" where
  "S256_ScalarBaseMult base_mult k =
     (case base_mult (SetBytes k) of
        Infinity \<Rightarrow> (None, None)
      | Affine x y \<Rightarrow> (Some x, Some y))"

section \<open>Hash engine\<close>

text \<open>
  Modelled from the spec: the package lib/crypto/sha3 of this repository is not under
  src/.  The spec's contract for the hash engine is that the buffers are fed ``to the
  hash function in argument order'' and that the result is ``the digest of their
  concatenation'', of a fixed width.  The hasher is therefore a sponge that remembers
  the bytes absorbed so far and the number of bytes it is to put out; \<^verbatim>\<open>Sum(b)\<close>
  appends that many output bytes to \<open>b\<close>.  The sponge's output function itself (byte
  \<open>i\<close> of the output after absorbing a message) is a parameter \<open>squeeze\<close>.
\<close>

record keccak_state =
  absorbed :: "byte list"
  outputLen :: nat

definition NewKeccak256 :: keccak_state where
  "NewKeccak256 = \<lparr>absorbed = [], outputLen = 32\<rparr>"

definition Write :: "keccak_state \<Rightarrow> byte list \<Rightarrow> keccak_state" where
  "Write d p = d\<lparr>absorbed := absorbed d @ p\<rparr>"

definition Sum :: "(byte list \<Rightarrow> nat \<Rightarrow> byte) \<Rightarrow> keccak_state \<Rightarrow> byte list \<Rightarrow> byte list" where
  "Sum squeeze d b = b @ map (squeeze (absorbed d)) [0..<outputLen d]"

text \<open>\<^verbatim>\<open>Keccak256(data ...[]byte)\<close>: the loop over \<open>data\<close> is a left fold of \<open>Write\<close>.\<close>

definition Keccak256 :: "(byte list \<Rightarrow> nat \<Rightarrow> byte) \<Rightarrow> byte list list \<Rightarrow> byte list" where
  "Keccak256 squeeze data = Sum squeeze (foldl Write NewKeccak256 data) []"

section \<open>Keys\<close>

text \<open>
  \<^verbatim>\<open>ecdsa.PublicKey\<close> and \<^verbatim>\<open>ecdsa.PrivateKey\<close> (which embeds the public key).  The
  coordinates \<open>X\<close> and \<open>Y\<close> are pointers that the source tests against nil, so they
  are options.  What the source never tests against nil (the \<^verbatim>\<open>Curve\<close> interface, the
  scalar \<open>D\<close>, the arguments \<open>r\<close> and \<open>s\<close> of the signature validator) is taken
  to be present.
\<close>

record PublicKey =
  Curve :: curve
  X :: "int option"
  Y :: "int option"

record PrivateKey = PublicKey +
  D :: int

text \<open>
  The errors of \<^verbatim>\<open>toECDSA\<close>, under the names of the spec's taxonomy.  In the source
  they are \<^verbatim>\<open>fmt.Errorf\<close>/\<^verbatim>\<open>errors.New\<close> values with four distinct messages, in this
  order: wrong length, \<open>>= N\<close>, zero or negative, and the bare message after a nil
  \<open>X\<close>.
\<close>

datatype key_error = InvalidKeyLength | KeyOutOfRange | KeyNonPositive | InvalidPoint

text \<open>
  \<^verbatim>\<open>toECDSA(d, strict)\<close>.  \<^verbatim>\<open>Curve.ScalarBaseMult\<close> belongs to the curve package that
  is not under src/; it is the parameter \<open>ScalarBaseMult\<close>, handed the raw bytes \<open>d\<close>
  as in the source and returning the two coordinate pointers; it is taken to return
  for every input.  A slice length is far below \<open>2^60\<close>, so \<^verbatim>\<open>8*len(d)\<close> does not
  wrap.
\<close>

definition toECDSA ::
  "(byte list \<Rightarrow> int option \<times> int option) \<Rightarrow> byte list \<Rightarrow> bool \<Rightarrow> key_error + PrivateKey" where
  "toECDSA ScalarBaseMult d strict =
     (if strict \<and> 8 * int (length d) \<noteq> BitSize S256 then Inl InvalidKeyLength
      else let privD = SetBytes d in
        if Cmp privD secp256k1N \<ge> 0 then Inl KeyOutOfRange
        else if Sign privD \<le> 0 then Inl KeyNonPositive
        else case ScalarBaseMult d of (x, y) \<Rightarrow>
          if x = None then Inl InvalidPoint
          else Inr \<lparr>Curve = S256, X = x, Y = y, D = privD\<rparr>)"

definition ToECDSA ::
  "(byte list \<Rightarrow> int option \<times> int option) \<Rightarrow> byte list \<Rightarrow> key_error + PrivateKey" where
  "ToECDSA ScalarBaseMult d = toECDSA ScalarBaseMult d True"

text \<open>\<^verbatim>\<open>ToECDSAUnsafe\<close> drops the error and returns the pointer, nil after a failure.\<close>

definition ToECDSAUnsafe ::
  "(byte list \<Rightarrow> int option \<times> int option) \<Rightarrow> byte list \<Rightarrow> PrivateKey option" where
  "ToECDSAUnsafe ScalarBaseMult d =
     (case toECDSA ScalarBaseMult d False of Inl err \<Rightarrow> None | Inr priv \<Rightarrow> Some priv)"

definition FromECDSA :: "PrivateKey option \<Rightarrow> byte list" where
  "FromECDSA priv =
     (case priv of
        None \<Rightarrow> []
      | Some k \<Rightarrow> PaddedBigBytes (D k) (nat (BitSize (Curve k) div 8)))"

text \<open>
  \<^verbatim>\<open>FromECDSAPub\<close>.  \<^verbatim>\<open>elliptic.Marshal(S256(), x, y)\<close> is the parameter \<open>Marshal\<close>;
  the curve handed to it is \<^verbatim>\<open>S256()\<close> whatever the key's own field holds.
\<close>

definition FromECDSAPub :: "(int \<Rightarrow> int \<Rightarrow> byte list) \<Rightarrow> PublicKey option \<Rightarrow> byte list" where
  "FromECDSAPub Marshal pub =
     (case pub of
        None \<Rightarrow> []
      | Some p \<Rightarrow>
          (case X p of
             None \<Rightarrow> []
           | Some x \<Rightarrow> (case Y p of None \<Rightarrow> [] | Some y \<Rightarrow> Marshal x y)))"

section \<open>Hex strings, key files and key generation\<close>

text \<open>
  Go's \<^verbatim>\<open>error\<close> values as they reach the callers of this package: an error of
  \<^verbatim>\<open>toECDSA\<close>, an error of \<^verbatim>\<open>encoding/hex\<close>, the two errors the package makes itself
  (\<^verbatim>\<open>HexToECDSA\<close>'s message for a bad hex string and \<^verbatim>\<open>errInvalidPubkey\<close>), and any
  other error handed over by the operating system or a library, with its message.
\<close>

datatype hex_error = InvalidByteError byte | ErrLength

datatype error =
    KeyError key_error
  | HexError hex_error
  | InvalidHexString
  | errInvalidPubkey
  | Other string

text \<open>
  \<^verbatim>\<open>encoding/hex\<close> of the Go library.  A Go string is the list of its bytes.
  \<^verbatim>\<open>hex.Decode\<close> walks over the pairs of characters and stops at the first character
  that is not a hex digit; a single character left over is an error too.  It returns the
  bytes decoded so far and the error, nil when there is none.
\<close>

definition fromHexChar :: "byte \<Rightarrow> byte option" where
  "fromHexChar c =
     (if 48 \<le> c \<and> c \<le> 57 then Some (c - 48)
      else if 97 \<le> c \<and> c \<le> 102 then Some (c - 97 + 10)
      else if 65 \<le> c \<and> c \<le> 70 then Some (c - 65 + 10)
      else None)"

fun Decode :: "byte list \<Rightarrow> byte list \<times> error option" where
  "Decode (p # q # rest) =
     (case fromHexChar p of
        None \<Rightarrow> ([], Some (HexError (InvalidByteError p)))
      | Some a \<Rightarrow>
          (case fromHexChar q of
             None \<Rightarrow> ([], Some (HexError (InvalidByteError q)))
           | Some b \<Rightarrow>
               (case Decode rest of (dst, err) \<Rightarrow> ((push_bit 4 a OR b) # dst, err))))"
| "Decode [p] =
     (case fromHexChar p of
        None \<Rightarrow> ([], Some (HexError (InvalidByteError p)))
      | Some a \<Rightarrow> ([], Some (HexError ErrLength)))"
| "Decode [] = ([], None)"

definition DecodeString :: "byte list \<Rightarrow> byte list \<times> error option" where
  "DecodeString s = Decode s"

text \<open>\<^verbatim>\<open>hex.EncodeToString\<close>: two lower-case hex digits for each byte.\<close>

definition hextable :: "byte \<Rightarrow> byte" where
  "hextable v = (if v < 10 then 48 + v else 87 + v)"

definition EncodeToString :: "byte list \<Rightarrow> byte list" where
  "EncodeToString src = concat (map (\<lambda>v. [hextable (drop_bit 4 v), hextable (v AND 15)]) src)"

text \<open>\<^verbatim>\<open>UnmarshalPubkey\<close>.  \<^verbatim>\<open>elliptic.Unmarshal(S256(), pub)\<close> is the parameter
  \<open>Unmarshal\<close>.\<close>

definition UnmarshalPubkey ::
  "(byte list \<Rightarrow> int option \<times> int option) \<Rightarrow> byte list \<Rightarrow> error + PublicKey" where
  "UnmarshalPubkey Unmarshal pub =
     (case Unmarshal pub of (x, y) \<Rightarrow>
        if x = None then Inl errInvalidPubkey
        else Inr \<lparr>Curve = S256, X = x, Y = y\<rparr>)"

text \<open>\<^verbatim>\<open>HexToECDSA\<close>: the error of the hex decoder is replaced by the package's own.\<close>

definition HexToECDSA ::
  "(byte list \<Rightarrow> int option \<times> int option) \<Rightarrow> byte list \<Rightarrow> error + PrivateKey" where
  "HexToECDSA ScalarBaseMult hexkey =
     (case DecodeString hexkey of (b, err) \<Rightarrow>
        if err \<noteq> None then Inl InvalidHexString
        else map_sum KeyError id (ToECDSA ScalarBaseMult b))"

text \<open>
  \<^verbatim>\<open>LoadECDSA\<close>.  The file system is outside the package: \<^verbatim>\<open>os.Open\<close>,
  \<^verbatim>\<open>io.ReadFull\<close> on the opened file with a buffer of the given size, and the deferred
  \<^verbatim>\<open>fd.Close()\<close> are the parameters \<open>Open\<close>, \<open>ReadFull\<close> and \<open>Close\<close>.  The source
  does not look at what \<^verbatim>\<open>Close\<close> returns.
\<close>

definition LoadECDSA ::
  "(string \<Rightarrow> error + 'fd) \<Rightarrow> ('fd \<Rightarrow> nat \<Rightarrow> error + byte list) \<Rightarrow> ('fd \<Rightarrow> error option) \<Rightarrow>
     (byte list \<Rightarrow> int option \<times> int option) \<Rightarrow> string \<Rightarrow> error + PrivateKey" where
  "LoadECDSA Open ReadFull Close ScalarBaseMult file =
     (case Open file of
        Inl err \<Rightarrow> Inl err
      | Inr fd \<Rightarrow>
          (let result =
             (case ReadFull fd 64 of
                Inl err \<Rightarrow> Inl err
              | Inr buf \<Rightarrow>
                  (case DecodeString buf of (key, err) \<Rightarrow>
                     (case err of
                        Some e \<Rightarrow> Inl e
                      | None \<Rightarrow> map_sum KeyError id (ToECDSA ScalarBaseMult key))));
               closed = Close fd
           in result))"

text \<open>\<^verbatim>\<open>SaveECDSA\<close>.  \<^verbatim>\<open>ioutil.WriteFile\<close> is the parameter \<open>WriteFile\<close>; the permission
  bits \<^verbatim>\<open>0600\<close> are 384.\<close>

definition SaveECDSA ::
  "(string \<Rightarrow> byte list \<Rightarrow> nat \<Rightarrow> error option) \<Rightarrow> string \<Rightarrow> PrivateKey option \<Rightarrow> error option" where
  "SaveECDSA WriteFile file key =
     (let k = EncodeToString (FromECDSA key) in WriteFile file k 384)"

text \<open>\<^verbatim>\<open>GenerateKey\<close>.  \<^verbatim>\<open>ecdsa.GenerateKey\<close> and \<^verbatim>\<open>rand.Reader\<close> are parameters.\<close>

definition GenerateKey :: "(curve \<Rightarrow> 'r \<Rightarrow> error + PrivateKey) \<Rightarrow> 'r \<Rightarrow> error + PrivateKey" where
  "GenerateKey ecdsa_GenerateKey Reader = ecdsa_GenerateKey S256 Reader"

section \<open>Signature validation\<close>

definition ValidateSignatureValues :: "byte \<Rightarrow> int \<Rightarrow> int \<Rightarrow> bool \<Rightarrow> bool" where
  "ValidateSignatureValues v r s homestead =
     (if Cmp r Big1 < 0 \<or> Cmp s Big1 < 0 then False
      else if homestead \<and> Cmp s secp256k1halfN > 0 then False
      else Cmp r secp256k1N < 0 \<and> Cmp s secp256k1N < 0 \<and> (v = 0 \<or> v = 1))"

section \<open>Address derivation\<close>

text \<open>
  Modelled from the spec: \<^verbatim>\<open>chain_common.Address\<close> and \<^verbatim>\<open>chain_common.BytesToAddress\<close>
  (package lib/chain_common of this repository) are not under src/.  The spec has an
  address be ``a fixed-width (20-byte) identifier'': the conversion keeps the last 20
  bytes of its argument and pads a shorter one on the left with zero bytes.
\<close>

definition AddressLength :: nat where
  "AddressLength = 20"

definition BytesToAddress :: "byte list \<Rightarrow> byte list" where
  "BytesToAddress b =
     replicate (AddressLength - length b) 0 @ drop (length b - AddressLength) b"

text \<open>
  \<^verbatim>\<open>PubkeyToAddress(p)\<close>: the argument is a struct value, so \<^verbatim>\<open>&p\<close> is never nil.  Each
  of the two slice expressions may panic.
\<close>

definition PubkeyToAddress ::
  "(int \<Rightarrow> int \<Rightarrow> byte list) \<Rightarrow> (byte list \<Rightarrow> nat \<Rightarrow> byte) \<Rightarrow> PublicKey \<Rightarrow> panic + byte list" where
  "PubkeyToAddress Marshal squeeze p =
     (let pubBytes = FromECDSAPub Marshal (Some p) in
      case slice_from 1 pubBytes of
        Inl e \<Rightarrow> Inl e
      | Inr rest \<Rightarrow>
          (case slice_from 12 (Keccak256 squeeze [rest]) of
             Inl e \<Rightarrow> Inl e
           | Inr low \<Rightarrow> Inr (BytesToAddress low)))"

text \<open>
  \<^verbatim>\<open>CreateAddress(b, nonce)\<close>.  \<^verbatim>\<open>rlp.EncodeToBytes\<close> (package lib/rlp of this
  repository, not under src/) is the parameter \<open>EncodeToBytes\<close>; it returns the bytes
  and an error, and the source drops the error.
\<close>

definition CreateAddress ::
  "(byte list \<Rightarrow> 64 word \<Rightarrow> byte list \<times> 'e option) \<Rightarrow> (byte list \<Rightarrow> nat \<Rightarrow> byte) \<Rightarrow>
     byte list \<Rightarrow> 64 word \<Rightarrow> panic + byte list" where
  "CreateAddress EncodeToBytes squeeze b nonce =
     (case EncodeToBytes b nonce of (data, err) \<Rightarrow>
        (case slice_from 12 (Keccak256 squeeze [data]) of
           Inl e \<Rightarrow> Inl e
         | Inr low \<Rightarrow> Inr (BytesToAddress low)))"

section \<open>Concrete inputs\<close>

text \<open>
  The theorems below hold for every curve, encoder and sponge handed in as a parameter.
  To run the model on concrete inputs the parameters are instantiated with these: the
  curve's base point as the product for the scalar one (no point for any other scalar),
  the uncompressed point format (a tag byte 4, then both coordinates on 32 bytes), and a
  sponge whose output counts up from the length of the message.
\<close>

definition secp256k1Gx :: int where
  "secp256k1Gx = 0x79be667ef9dcbbac55a06295ce870b07029bfcdb2dce28d959f2815b16f81798"

definition secp256k1Gy :: int where
  "secp256k1Gy = 0x483ada7726a3c4655da4fbfc0e1108a8fd17b448a68554199c47d08ffb10d4b8"

definition sample_ScalarBaseMult :: "byte list \<Rightarrow> int option \<times> int option" where
  "sample_ScalarBaseMult k =
     (if SetBytes k = 1 then (Some secp256k1Gx, Some secp256k1Gy) else (None, None))"

definition sample_Marshal :: "int \<Rightarrow> int \<Rightarrow> byte list" where
  "sample_Marshal x y = 4 # PaddedBigBytes x 32 @ PaddedBigBytes y 32"

definition sample_squeeze :: "byte list \<Rightarrow> nat \<Rightarrow> byte" where
  "sample_squeeze msg i = of_nat (length msg + i)"

text \<open>
  The same curve as a multiple of the base point, a point decoder that knows the base
  point only, and a small file system: a key file holding the scalar one, a file that is
  too short, a file that is not hex, a file holding the scalar zero, and a path that
  cannot be written.
\<close>

definition sample_base_mult :: "int \<Rightarrow> point" where
  "sample_base_mult k = (if k = 1 then Affine secp256k1Gx secp256k1Gy else Infinity)"

definition sample_Unmarshal :: "byte list \<Rightarrow> int option \<times> int option" where
  "sample_Unmarshal pub =
     (if pub = sample_Marshal secp256k1Gx secp256k1Gy
      then (Some secp256k1Gx, Some secp256k1Gy) else (None, None))"

definition sample_Open :: "string \<Rightarrow> error + byte list" where
  "sample_Open file =
     (if file = ''key'' then Inr (replicate 62 48 @ [48, 49])
      else if file = ''short'' then Inr [48, 49]
      else if file = ''nothex'' then Inr (replicate 64 122)
      else if file = ''zero'' then Inr (replicate 64 48)
      else Inl (Other ''no such file''))"

definition sample_ReadFull :: "byte list \<Rightarrow> nat \<Rightarrow> error + byte list" where
  "sample_ReadFull content n =
     (if content = [] then Inl (Other ''EOF'')
      else if length content < n then Inl (Other ''unexpected EOF'')
      else Inr (take n content))"

definition sample_WriteFile :: "string \<Rightarrow> byte list \<Rightarrow> nat \<Rightarrow> error option" where
  "sample_WriteFile file data perm =
     (if file = ''readonly'' then Some (Other ''permission denied'') else None)"

text \<open>The curve order \<open>N\<close> and \<open>N + 1\<close> on 32 bytes, and the scalar one on 31 bytes.\<close>

definition bytes_N :: "byte list" where
  "bytes_N = [255, 255, 255, 255, 255, 255, 255, 255, 255, 255, 255, 255, 255, 255, 255, 254,
              186, 174, 220, 230, 175, 72, 160, 59, 191, 210, 94, 140, 208, 54, 65, 65]"

definition bytes_N_plus_1 :: "byte list" where
  "bytes_N_plus_1 = [255, 255, 255, 255, 255, 255, 255, 255, 255, 255, 255, 255, 255, 255, 255, 254,
              186, 174, 220, 230, 175, 72, 160, 59, 191, 210, 94, 140, 208, 54, 65, 66]"

definition bytes_one_31 :: "byte list" where
  "bytes_one_31 = replicate 30 0 @ [1]"

section \<open>Big-endian bytes\<close>

lemma Cmp_less [simp]: "Cmp x y < 0 \<longleftrightarrow> x < y"
  by (simp add: Cmp_def)

lemma Cmp_greater [simp]: "Cmp x y > 0 \<longleftrightarrow> x > y"
  by (simp add: Cmp_def)

lemma Cmp_ge [simp]: "Cmp x y \<ge> 0 \<longleftrightarrow> x \<ge> y"
  by (simp add: Cmp_def)

lemma Sign_le [simp]: "Sign x \<le> 0 \<longleftrightarrow> x \<le> 0"
  by (simp add: Sign_def)

lemma secp256k1N_pos: "0 < secp256k1N"
  by (simp add: secp256k1N_def)

lemma SetBytes_Nil: "SetBytes [] = 0"
  by (simp add: SetBytes_def)

lemma SetBytes_snoc: "SetBytes (bs @ [b]) = SetBytes bs * 256 + uint b"
  by (simp add: SetBytes_def)

lemma SetBytes_zero_Cons: "SetBytes (0 # bs) = SetBytes bs"
  by (simp add: SetBytes_def)

lemma SetBytes_nonneg: "0 \<le> SetBytes bs"
  by (induction bs rule: rev_induct) (simp_all add: SetBytes_Nil SetBytes_snoc)

lemma SetBytes_bound: "SetBytes bs < 256 ^ length bs"
proof (induction bs rule: rev_induct)
  case Nil
  show ?case by (simp add: SetBytes_Nil)
next
  case (snoc b bs)
  have "uint b < 256"
    using uint_bounded [of b] by simp
  then show ?case
    using snoc.IH by (simp add: SetBytes_snoc)
qed

lemma SetBytes_replicate_zero: "SetBytes (replicate n 0) = 0"
  by (induction n) (simp_all add: SetBytes_Nil SetBytes_zero_Cons)

lemma SetBytes_replicate_zero_append: "SetBytes (replicate n 0 @ bs) = SetBytes bs"
  by (induction n) (simp_all add: SetBytes_zero_Cons)

lemma SetBytes_bytes_N: "SetBytes bytes_N = secp256k1N"
  by (simp add: SetBytes_def bytes_N_def secp256k1N_def)

lemma SetBytes_bytes_N_plus_1: "SetBytes bytes_N_plus_1 = secp256k1N + 1"
  by (simp add: SetBytes_def bytes_N_plus_1_def secp256k1N_def)

lemma SetBytes_bytes_one_31: "SetBytes bytes_one_31 = 1"
  by (simp add: bytes_one_31_def SetBytes_replicate_zero_append) (simp add: SetBytes_def)

lemma be_bytes_zero: "be_bytes 0 = []"
  by (simp add: be_bytes.simps)

lemma be_bytes_step:
  assumes "m * 256 + unat b \<noteq> 0"
  shows "be_bytes (m * 256 + unat b) = be_bytes m @ [b]"
proof -
  have lt: "unat b < 256"
    using unsigned_less [of b, where 'a = nat] by simp
  have q: "(m * 256 + unat b) div 256 = m"
    using lt by simp
  show ?thesis
    using assms lt by (subst be_bytes.simps) (simp add: q del: of_nat_add of_nat_mult)
qed

text \<open>One more byte at the low end of the value is one more byte at the end of the
  padded encoding, also when the value stays zero.\<close>

lemma pad_step:
  "replicate (Suc n - length (be_bytes (m * 256 + unat b))) 0 @ be_bytes (m * 256 + unat b)
     = (replicate (n - length (be_bytes m)) 0 @ be_bytes m) @ [b]"
proof (cases "m * 256 + unat b = 0")
  case True
  then have "m = 0" and "unat b = 0" by simp_all
  then have "b = 0" by (simp add: unat_eq_0)
  show ?thesis
    using \<open>m = 0\<close> \<open>b = 0\<close> by (simp add: be_bytes_zero replicate_append_same)
next
  case False
  then show ?thesis by (simp add: be_bytes_step)
qed

lemma PaddedBigBytes_SetBytes: "PaddedBigBytes (SetBytes bs) (length bs) = bs"
proof (induction bs rule: rev_induct)
  case Nil
  show ?case by (simp add: PaddedBigBytes_def Bytes_def SetBytes_Nil be_bytes_zero)
next
  case (snoc b bs)
  have nn: "0 \<le> SetBytes bs" by (rule SetBytes_nonneg)
  have "nat \<bar>SetBytes bs * 256 + uint b\<bar> = nat (SetBytes bs) * 256 + unat b"
    using nn by (simp add: nat_add_distrib nat_mult_distrib)
  moreover have "nat \<bar>SetBytes bs\<bar> = nat (SetBytes bs)"
    using nn by simp
  ultimately show ?case
    using snoc.IH pad_step [of "length bs" "nat (SetBytes bs)" b]
    by (simp add: PaddedBigBytes_def Bytes_def SetBytes_snoc)
qed

lemma FromECDSA_SetBytes:
  assumes "length bs = 32"
  shows "FromECDSA (Some \<lparr>Curve = S256, X = x, Y = y, D = SetBytes bs\<rparr>) = bs"
  using PaddedBigBytes_SetBytes [of bs] assms by (simp add: FromECDSA_def)

section \<open>The hash engine\<close>

lemma foldl_Write: "foldl Write s data = s\<lparr>absorbed := absorbed s @ concat data\<rparr>"
  by (induction data arbitrary: s) (simp_all add: Write_def)

lemma length_Keccak256: "length (Keccak256 squeeze data) = 32"
  by (simp add: Keccak256_def Sum_def NewKeccak256_def foldl_Write)

lemma digest_low_bytes:
  "slice_from 12 (Keccak256 squeeze data) = Inr (drop 12 (Keccak256 squeeze data))"
  by (simp add: slice_from_def length_Keccak256)

lemma BytesToAddress_exact: "length b = 20 \<Longrightarrow> BytesToAddress b = b"
  by (simp add: BytesToAddress_def AddressLength_def)

text \<open>
  C7. \<open>Keccak256\<close> takes any list of buffers, the empty list and empty buffers
  included, and returns the digest of their concatenation in argument order; the result
  is the first 32 output bytes of the sponge, so it always has exactly 32 bytes.  It is a
  function of the buffers, so equal buffers in equal order give equal output.
\<close>

theorem Keccak256_concat:
  "Keccak256 squeeze data = Keccak256 squeeze [concat data] \<and>
   Keccak256 squeeze data = map (squeeze (concat data)) [0..<32] \<and>
   length (Keccak256 squeeze data) = 32"
  by (simp add: Keccak256_def Sum_def NewKeccak256_def foldl_Write Write_def)

section \<open>The signature validator\<close>

text \<open>
  C1. \<open>ValidateSignatureValues v r s homestead\<close> is true exactly when \<open>r \<ge> 1\<close> and
  \<open>s \<ge> 1\<close>, and \<open>s \<le> N/2\<close> when the fork flag is set, and \<open>r < N\<close>, \<open>s < N\<close>, and
  \<open>v\<close> is 0 or 1; for every \<open>v\<close>, \<open>r\<close>, \<open>s\<close> and both values of the flag.
\<close>

theorem ValidateSignatureValues_iff:
  "ValidateSignatureValues v r s homestead \<longleftrightarrow>
     r \<ge> 1 \<and> s \<ge> 1 \<and> (homestead \<longrightarrow> s \<le> secp256k1N div 2) \<and>
     r < secp256k1N \<and> s < secp256k1N \<and> (v = 0 \<or> v = 1)"
  by (auto simp add: ValidateSignatureValues_def Big1_def secp256k1halfN_def)

theorem ValidateSignatureValues_iff_witness:
  "ValidateSignatureValues 0 1 (secp256k1N div 2) True \<and>
   \<not> ValidateSignatureValues 0 1 (secp256k1N div 2 + 1) True \<and>
   ValidateSignatureValues 0 1 (secp256k1N div 2 + 1) False \<and>
   \<not> ValidateSignatureValues 2 1 1 True \<and>
   \<not> ValidateSignatureValues 0 0 1 True"
  using ValidateSignatureValues_iff [of 0 1 "secp256k1N div 2" True]
    ValidateSignatureValues_iff [of 0 1 "secp256k1N div 2 + 1" True]
    ValidateSignatureValues_iff [of 0 1 "secp256k1N div 2 + 1" False]
    ValidateSignatureValues_iff [of 2 1 1 True]
    ValidateSignatureValues_iff [of 0 0 1 True]
  by (simp add: secp256k1N_def)

section \<open>Decoding a private key\<close>

text \<open>
  C2. Once the length check of strict mode passes (and always in lenient mode),
  \<open>toECDSA\<close> fails with \<open>KeyOutOfRange\<close> when the big-endian value of the bytes is at
  least \<open>N\<close> and with \<open>KeyNonPositive\<close> when it is at most 0; a key it returns has its
  scalar strictly between 0 and \<open>N\<close>.
\<close>

theorem toECDSA_scalar_range:
  assumes "strict \<longrightarrow> length d = 32"
  shows "(secp256k1N \<le> SetBytes d \<longrightarrow> toECDSA sbm d strict = Inl KeyOutOfRange) \<and>
         (SetBytes d \<le> 0 \<longrightarrow> toECDSA sbm d strict = Inl KeyNonPositive) \<and>
         (\<forall>k. toECDSA sbm d strict = Inr k \<longrightarrow> 0 < D k \<and> D k < secp256k1N)"
  using assms secp256k1N_pos
  by (auto simp add: toECDSA_def Let_def split: prod.splits if_splits)

theorem toECDSA_scalar_range_witness:
  "length bytes_N = 32 \<and> secp256k1N \<le> SetBytes bytes_N \<and>
   toECDSA sample_ScalarBaseMult bytes_N True = Inl KeyOutOfRange \<and>
   toECDSA sample_ScalarBaseMult bytes_N False = Inl KeyOutOfRange \<and>
   length bytes_N_plus_1 = 32 \<and> secp256k1N \<le> SetBytes bytes_N_plus_1 \<and>
   toECDSA sample_ScalarBaseMult bytes_N_plus_1 True = Inl KeyOutOfRange \<and>
   SetBytes (replicate 32 0) \<le> 0 \<and>
   toECDSA sample_ScalarBaseMult (replicate 32 0) True = Inl KeyNonPositive \<and>
   toECDSA sample_ScalarBaseMult [] False = Inl KeyNonPositive \<and>
   toECDSA sample_ScalarBaseMult (0 # bytes_one_31) True =
     Inr \<lparr>Curve = S256, X = Some secp256k1Gx, Y = Some secp256k1Gy, D = 1\<rparr> \<and>
   0 < D \<lparr>Curve = S256, X = Some secp256k1Gx, Y = Some secp256k1Gy, D = 1\<rparr> \<and>
   D \<lparr>Curve = S256, X = Some secp256k1Gx, Y = Some secp256k1Gy, D = 1\<rparr> < secp256k1N"
proof -
  have l1: "length bytes_N = 32" by (simp add: bytes_N_def)
  have l2: "length bytes_N_plus_1 = 32" by (simp add: bytes_N_plus_1_def)
  have l3: "length (0 # bytes_one_31) = 32" by (simp add: bytes_one_31_def)
  have ok: "toECDSA sample_ScalarBaseMult (0 # bytes_one_31) True =
     Inr \<lparr>Curve = S256, X = Some secp256k1Gx, Y = Some secp256k1Gy, D = 1\<rparr>"
    using l3 by (simp add: toECDSA_def sample_ScalarBaseMult_def
        SetBytes_zero_Cons SetBytes_bytes_one_31 secp256k1N_def)
  show ?thesis
    using toECDSA_scalar_range [of True bytes_N sample_ScalarBaseMult]
      toECDSA_scalar_range [of False bytes_N sample_ScalarBaseMult]
      toECDSA_scalar_range [of True bytes_N_plus_1 sample_ScalarBaseMult]
      toECDSA_scalar_range [of True "replicate 32 0" sample_ScalarBaseMult]
      toECDSA_scalar_range [of False "[]" sample_ScalarBaseMult]
      toECDSA_scalar_range [of True "0 # bytes_one_31" sample_ScalarBaseMult]
      l1 l2 l3 ok
    by (simp add: SetBytes_bytes_N SetBytes_bytes_N_plus_1 SetBytes_replicate_zero SetBytes_Nil)
qed

text \<open>
  C3. Strict decode fails with \<open>InvalidKeyLength\<close> on every input whose length is not
  exactly 32 bytes.  Lenient decode never fails with that error: whatever its length, an
  input whose big-endian value lies strictly between 0 and \<open>N\<close>, and for which the curve
  returns a point, is decoded to the key with that value as its scalar.
\<close>

theorem strict_length_check:
  "(length d \<noteq> 32 \<longrightarrow> ToECDSA sbm d = Inl InvalidKeyLength) \<and>
   toECDSA sbm d False \<noteq> Inl InvalidKeyLength \<and>
   (0 < SetBytes d \<and> SetBytes d < secp256k1N \<and> fst (sbm d) \<noteq> None \<longrightarrow>
      ToECDSAUnsafe sbm d =
        Some \<lparr>Curve = S256, X = fst (sbm d), Y = snd (sbm d), D = SetBytes d\<rparr>)"
  by (auto simp add: ToECDSA_def ToECDSAUnsafe_def toECDSA_def Let_def split: prod.splits)

theorem strict_length_check_witness:
  "length bytes_one_31 \<noteq> 32 \<and>
   ToECDSA sample_ScalarBaseMult bytes_one_31 = Inl InvalidKeyLength \<and>
   length (0 # 0 # bytes_one_31) \<noteq> 32 \<and>
   ToECDSA sample_ScalarBaseMult (0 # 0 # bytes_one_31) = Inl InvalidKeyLength \<and>
   0 < SetBytes bytes_one_31 \<and> SetBytes bytes_one_31 < secp256k1N \<and>
   fst (sample_ScalarBaseMult bytes_one_31) \<noteq> None \<and>
   ToECDSAUnsafe sample_ScalarBaseMult bytes_one_31 =
     Some \<lparr>Curve = S256, X = Some secp256k1Gx, Y = Some secp256k1Gy, D = 1\<rparr> \<and>
   ToECDSAUnsafe sample_ScalarBaseMult (0 # 0 # bytes_one_31) =
     Some \<lparr>Curve = S256, X = Some secp256k1Gx, Y = Some secp256k1Gy, D = 1\<rparr>"
proof -
  have l1: "length bytes_one_31 = 31" by (simp add: bytes_one_31_def)
  have v: "SetBytes (0 # 0 # bytes_one_31) = 1"
    by (simp add: SetBytes_zero_Cons SetBytes_bytes_one_31)
  show ?thesis
    using strict_length_check [of bytes_one_31 sample_ScalarBaseMult]
      strict_length_check [of "0 # 0 # bytes_one_31" sample_ScalarBaseMult] l1 v
    by (simp add: SetBytes_bytes_one_31 sample_ScalarBaseMult_def secp256k1N_def)
qed

text \<open>
  C5. For a scalar \<open>d\<close> strictly between 0 and \<open>N\<close> and its 32-byte big-endian
  encoding, for which the curve returns a point: strict decode succeeds, the encoding of
  the decoded key has 32 bytes, and strict decode of that encoding succeeds with the
  scalar \<open>d\<close> again.
\<close>

theorem decode_encode_roundtrip:
  assumes "0 < d" and "d < secp256k1N"
    and "length d_bytes = 32" and "SetBytes d_bytes = d"
    and "fst (sbm d_bytes) \<noteq> None"
  shows "\<exists>k. toECDSA sbm d_bytes True = Inr k \<and>
           length (FromECDSA (Some k)) = 32 \<and>
           (\<exists>k'. toECDSA sbm (FromECDSA (Some k)) True = Inr k' \<and> D k' = d)"
proof -
  let ?k = "\<lparr>Curve = S256, X = fst (sbm d_bytes), Y = snd (sbm d_bytes), D = d\<rparr>"
  have dec: "toECDSA sbm d_bytes True = Inr ?k"
    using assms by (cases "sbm d_bytes") (simp add: toECDSA_def)
  have enc: "FromECDSA (Some ?k) = d_bytes"
    using FromECDSA_SetBytes [OF assms(3)] assms(4) by simp
  show ?thesis
    using dec enc assms(3) by simp
qed

theorem decode_encode_roundtrip_witness:
  "(0::int) < 1 \<and> 1 < secp256k1N \<and> length (0 # bytes_one_31) = 32 \<and>
   SetBytes (0 # bytes_one_31) = 1 \<and>
   fst (sample_ScalarBaseMult (0 # bytes_one_31)) \<noteq> None \<and>
   (\<exists>k. toECDSA sample_ScalarBaseMult (0 # bytes_one_31) True = Inr k \<and>
           length (FromECDSA (Some k)) = 32 \<and>
           (\<exists>k'. toECDSA sample_ScalarBaseMult (FromECDSA (Some k)) True = Inr k' \<and> D k' = 1))"
proof -
  have h1: "(0::int) < 1" by simp
  have h2: "1 < secp256k1N" by (simp add: secp256k1N_def)
  have h3: "length (0 # bytes_one_31) = 32" by (simp add: bytes_one_31_def)
  have h4: "SetBytes (0 # bytes_one_31) = 1"
    by (simp add: SetBytes_zero_Cons SetBytes_bytes_one_31)
  have h5: "fst (sample_ScalarBaseMult (0 # bytes_one_31)) \<noteq> None"
    by (simp add: sample_ScalarBaseMult_def h4)
  show ?thesis
    using decode_encode_roundtrip
        [where d = 1 and d_bytes = "0 # bytes_one_31" and sbm = sample_ScalarBaseMult]
      h1 h2 h3 h4 h5
    by simp
qed

text \<open>
  C6. The curve's \<^verbatim>\<open>ScalarBaseMult\<close> is taken as the spec has it, the scalar's value
  times the base point.  For every 31-byte input \<open>b\<close> with a positive value (a 31-byte
  value is always below \<open>N\<close>) whose multiple of the base point is not the point at
  infinity: lenient decode of \<open>b\<close> succeeds and gives the same key as strict decode of
  \<open>b\<close> with one zero byte in front, the same scalar and the same public point, which is
  the curve's point for either byte sequence.
\<close>

theorem lenient_31_bytes_same_key:
  assumes "length b = 31" and "0 < SetBytes b" and "base_mult (SetBytes b) \<noteq> Infinity"
  shows "SetBytes b < secp256k1N \<and>
         (\<exists>k. ToECDSAUnsafe (S256_ScalarBaseMult base_mult) b = Some k \<and>
               ToECDSA (S256_ScalarBaseMult base_mult) (0 # b) = Inr k \<and>
               D k = SetBytes b \<and>
               S256_ScalarBaseMult base_mult b = (X k, Y k) \<and>
               S256_ScalarBaseMult base_mult (0 # b) = (X k, Y k) \<and>
               X k \<noteq> None \<and> Y k \<noteq> None)"
proof -
  have "SetBytes b < 256 ^ 31"
    using SetBytes_bound [of b] assms(1) by simp
  also have "(256::int) ^ 31 < secp256k1N"
    by (simp add: secp256k1N_def)
  finally have lt: "SetBytes b < secp256k1N" .
  obtain x y where pt: "base_mult (SetBytes b) = Affine x y"
    using assms(3) by (cases "base_mult (SetBytes b)") auto
  let ?k = "\<lparr>Curve = S256, X = Some x, Y = Some y, D = SetBytes b\<rparr>"
  have len: "ToECDSAUnsafe (S256_ScalarBaseMult base_mult) b = Some ?k"
    using assms(2) lt pt by (simp add: ToECDSAUnsafe_def toECDSA_def S256_ScalarBaseMult_def)
  have str: "ToECDSA (S256_ScalarBaseMult base_mult) (0 # b) = Inr ?k"
    using assms(1,2) lt pt
    by (simp add: ToECDSA_def toECDSA_def S256_ScalarBaseMult_def SetBytes_zero_Cons)
  have pub: "S256_ScalarBaseMult base_mult b = (Some x, Some y)"
    using pt by (simp add: S256_ScalarBaseMult_def)
  have pub0: "S256_ScalarBaseMult base_mult (0 # b) = (Some x, Some y)"
    using pt by (simp add: S256_ScalarBaseMult_def SetBytes_zero_Cons)
  show ?thesis
    using lt len str pub pub0 by simp
qed

theorem lenient_31_bytes_same_key_witness:
  "length bytes_one_31 = 31 \<and> 0 < SetBytes bytes_one_31 \<and>
   sample_base_mult (SetBytes bytes_one_31) \<noteq> Infinity \<and>
   SetBytes bytes_one_31 < secp256k1N \<and>
   (\<exists>k. ToECDSAUnsafe (S256_ScalarBaseMult sample_base_mult) bytes_one_31 = Some k \<and>
        ToECDSA (S256_ScalarBaseMult sample_base_mult) (0 # bytes_one_31) = Inr k \<and>
        D k = SetBytes bytes_one_31 \<and>
        S256_ScalarBaseMult sample_base_mult bytes_one_31 = (X k, Y k) \<and>
        S256_ScalarBaseMult sample_base_mult (0 # bytes_one_31) = (X k, Y k) \<and>
        X k \<noteq> None \<and> Y k \<noteq> None) \<and>
   ToECDSAUnsafe (S256_ScalarBaseMult sample_base_mult) bytes_one_31 =
     Some \<lparr>Curve = S256, X = Some secp256k1Gx, Y = Some secp256k1Gy, D = 1\<rparr> \<and>
   ToECDSA (S256_ScalarBaseMult sample_base_mult) (0 # bytes_one_31) =
     Inr \<lparr>Curve = S256, X = Some secp256k1Gx, Y = Some secp256k1Gy, D = 1\<rparr>"
proof -
  have h1: "length bytes_one_31 = 31" by (simp add: bytes_one_31_def)
  have h2: "0 < SetBytes bytes_one_31" by (simp add: SetBytes_bytes_one_31)
  have h3: "sample_base_mult (SetBytes bytes_one_31) \<noteq> Infinity"
    by (simp add: sample_base_mult_def SetBytes_bytes_one_31)
  have v: "ToECDSAUnsafe (S256_ScalarBaseMult sample_base_mult) bytes_one_31 =
     Some \<lparr>Curve = S256, X = Some secp256k1Gx, Y = Some secp256k1Gy, D = 1\<rparr>"
    by (simp add: ToECDSAUnsafe_def toECDSA_def S256_ScalarBaseMult_def sample_base_mult_def
        SetBytes_bytes_one_31 secp256k1N_def)
  have w: "ToECDSA (S256_ScalarBaseMult sample_base_mult) (0 # bytes_one_31) =
     Inr \<lparr>Curve = S256, X = Some secp256k1Gx, Y = Some secp256k1Gy, D = 1\<rparr>"
    using h1
    by (simp add: ToECDSA_def toECDSA_def S256_ScalarBaseMult_def sample_base_mult_def
        SetBytes_zero_Cons SetBytes_bytes_one_31 secp256k1N_def)
  show ?thesis
    using lenient_31_bytes_same_key [where b = bytes_one_31 and base_mult = sample_base_mult]
      h1 h2 h3 v w
    by simp
qed

section \<open>Addresses\<close>

text \<open>
  C4. For a public key with both coordinates present, whose point encoding is not empty,
  \<open>PubkeyToAddress\<close> is: marshal the key, drop the first byte, hash the rest, and
  keep bytes 12 to 31 of the 32-byte digest; those are exactly 20 bytes.  The result is a
  function of the key, so two calls on the same key agree.
\<close>

theorem PubkeyToAddress_formula:
  assumes "X p = Some x" and "Y p = Some y" and "Marshal x y \<noteq> []"
  shows "PubkeyToAddress Marshal squeeze p =
           Inr (drop 12 (Keccak256 squeeze [drop 1 (Marshal x y)])) \<and>
         drop 12 (Keccak256 squeeze [drop 1 (Marshal x y)]) =
           map (\<lambda>i. Keccak256 squeeze [drop 1 (Marshal x y)] ! i) [12..<32] \<and>
         length (drop 12 (Keccak256 squeeze [drop 1 (Marshal x y)])) = 20"
proof -
  let ?h = "Keccak256 squeeze [drop 1 (Marshal x y)]"
  have pub: "FromECDSAPub Marshal (Some p) = Marshal x y"
    using assms(1,2) by (simp add: FromECDSAPub_def)
  have "0 < length (Marshal x y)"
    using assms(3) by simp
  then have s1: "slice_from 1 (Marshal x y) = Inr (drop 1 (Marshal x y))"
    by (simp add: slice_from_def)
  have len: "length (drop 12 ?h) = 20"
    by (simp add: length_Keccak256)
  have addr: "PubkeyToAddress Marshal squeeze p = Inr (drop 12 ?h)"
    using s1
    by (simp add: PubkeyToAddress_def pub digest_low_bytes BytesToAddress_exact length_Keccak256)
  have "drop 12 ?h = drop 12 (map (\<lambda>i. ?h ! i) [0..<length ?h])"
    by (simp only: map_nth)
  also have "\<dots> = map (\<lambda>i. ?h ! i) [12..<length ?h]"
    by (simp only: drop_map drop_upt add_0)
  finally have nth: "drop 12 ?h = map (\<lambda>i. ?h ! i) [12..<32]"
    by (simp add: length_Keccak256)
  show ?thesis
    using addr nth len by simp
qed

theorem PubkeyToAddress_formula_witness:
  "X \<lparr>Curve = S256, X = Some secp256k1Gx, Y = Some secp256k1Gy\<rparr> = Some secp256k1Gx \<and>
   Y \<lparr>Curve = S256, X = Some secp256k1Gx, Y = Some secp256k1Gy\<rparr> = Some secp256k1Gy \<and>
   sample_Marshal secp256k1Gx secp256k1Gy \<noteq> [] \<and>
   PubkeyToAddress sample_Marshal sample_squeeze
       \<lparr>Curve = S256, X = Some secp256k1Gx, Y = Some secp256k1Gy\<rparr> =
     Inr (drop 12 (Keccak256 sample_squeeze [drop 1 (sample_Marshal secp256k1Gx secp256k1Gy)])) \<and>
   length (drop 12 (Keccak256 sample_squeeze [drop 1 (sample_Marshal secp256k1Gx secp256k1Gy)])) = 20"
proof -
  have h1: "X \<lparr>Curve = S256, X = Some secp256k1Gx, Y = Some secp256k1Gy\<rparr> = Some secp256k1Gx"
    by simp
  have h2: "Y \<lparr>Curve = S256, X = Some secp256k1Gx, Y = Some secp256k1Gy\<rparr> = Some secp256k1Gy"
    by simp
  have h3: "sample_Marshal secp256k1Gx secp256k1Gy \<noteq> []"
    by (simp add: sample_Marshal_def)
  show ?thesis
    using PubkeyToAddress_formula
        [where p = "\<lparr>Curve = S256, X = Some secp256k1Gx, Y = Some secp256k1Gy\<rparr>"
          and x = secp256k1Gx and y = secp256k1Gy
          and Marshal = sample_Marshal and squeeze = sample_squeeze]
      h1 h2 h3
    by simp
qed

text \<open>
  C10. When \<open>X\<close> or \<open>Y\<close> of the public key is absent, \<open>FromECDSAPub\<close> returns the empty
  byte sequence and the slice \<^verbatim>\<open>pubBytes[1:]\<close> of \<open>PubkeyToAddress\<close> is out of range:
  the call panics.  So whenever \<open>PubkeyToAddress\<close> returns an address, both coordinates
  were present.
\<close>

theorem PubkeyToAddress_partial_key_panics:
  "(X p = None \<or> Y p = None \<longrightarrow>
      FromECDSAPub Marshal (Some p) = [] \<and>
      PubkeyToAddress Marshal squeeze p = Inl (SliceBoundsOutOfRange 1 0)) \<and>
   (\<forall>a. PubkeyToAddress Marshal squeeze p = Inr a \<longrightarrow> X p \<noteq> None \<and> Y p \<noteq> None)"
  by (auto simp add: PubkeyToAddress_def FromECDSAPub_def slice_from_def split: option.splits)

theorem PubkeyToAddress_partial_key_panics_witness:
  "X \<lparr>Curve = S256, X = None, Y = Some 1\<rparr> = None \<and>
   FromECDSAPub sample_Marshal (Some \<lparr>Curve = S256, X = None, Y = Some 1\<rparr>) = [] \<and>
   PubkeyToAddress sample_Marshal sample_squeeze \<lparr>Curve = S256, X = None, Y = Some 1\<rparr> =
     Inl (SliceBoundsOutOfRange 1 0) \<and>
   Y \<lparr>Curve = S256, X = Some 1, Y = None\<rparr> = None \<and>
   PubkeyToAddress sample_Marshal sample_squeeze \<lparr>Curve = S256, X = Some 1, Y = None\<rparr> =
     Inl (SliceBoundsOutOfRange 1 0) \<and>
   PubkeyToAddress sample_Marshal sample_squeeze
       \<lparr>Curve = S256, X = Some secp256k1Gx, Y = Some secp256k1Gy\<rparr> =
     Inr (drop 12 (Keccak256 sample_squeeze [drop 1 (sample_Marshal secp256k1Gx secp256k1Gy)])) \<and>
   X \<lparr>Curve = S256, X = Some secp256k1Gx, Y = Some secp256k1Gy\<rparr> \<noteq> None \<and>
   Y \<lparr>Curve = S256, X = Some secp256k1Gx, Y = Some secp256k1Gy\<rparr> \<noteq> None"
proof -
  have ok: "PubkeyToAddress sample_Marshal sample_squeeze
       \<lparr>Curve = S256, X = Some secp256k1Gx, Y = Some secp256k1Gy\<rparr> =
     Inr (drop 12 (Keccak256 sample_squeeze [drop 1 (sample_Marshal secp256k1Gx secp256k1Gy)]))"
    by (simp add: PubkeyToAddress_def FromECDSAPub_def slice_from_def sample_Marshal_def
        length_Keccak256 BytesToAddress_exact)
  show ?thesis
    using PubkeyToAddress_partial_key_panics
        [of "\<lparr>Curve = S256, X = None, Y = Some 1\<rparr>" sample_Marshal sample_squeeze]
      PubkeyToAddress_partial_key_panics
        [of "\<lparr>Curve = S256, X = Some 1, Y = None\<rparr>" sample_Marshal sample_squeeze]
      PubkeyToAddress_partial_key_panics
        [of "\<lparr>Curve = S256, X = Some secp256k1Gx, Y = Some secp256k1Gy\<rparr>"
          sample_Marshal sample_squeeze]
      ok
    by simp
qed

section \<open>Errors returned to the caller\<close>

lemma ToECDSA_success:
  assumes "ToECDSA sbm d = Inr k"
  shows "length d = 32 \<and> 0 < SetBytes d \<and> SetBytes d < secp256k1N \<and> fst (sbm d) \<noteq> None \<and>
         k = \<lparr>Curve = S256, X = fst (sbm d), Y = snd (sbm d), D = SetBytes d\<rparr>"
  using assms
  by (cases "sbm d") (auto simp add: ToECDSA_def toECDSA_def Let_def split: if_splits)

lemma Decode_ok_iff:
  "snd (Decode s) = None \<longleftrightarrow> even (length s) \<and> (\<forall>c \<in> set s. fromHexChar c \<noteq> None)"
  by (induction s rule: Decode.induct) (auto split: option.splits prod.splits)

lemma HexToECDSA_bad_hex:
  assumes "odd (length hexkey) \<or> (\<exists>c \<in> set hexkey. fromHexChar c = None)"
  shows "HexToECDSA sbm hexkey = Inl InvalidHexString"
proof -
  have "snd (DecodeString hexkey) \<noteq> None"
    using assms Decode_ok_iff [of hexkey] by (auto simp add: DecodeString_def)
  then show ?thesis
    by (cases "DecodeString hexkey") (simp add: HexToECDSA_def)
qed

lemma HexToECDSA_key_error:
  assumes "snd (DecodeString hexkey) = None"
    and "ToECDSA sbm (fst (DecodeString hexkey)) = Inl e"
  shows "HexToECDSA sbm hexkey = Inl (KeyError e)"
  using assms by (cases "DecodeString hexkey") (simp add: HexToECDSA_def)

lemma HexToECDSA_success:
  assumes "HexToECDSA sbm hexkey = Inr k"
  shows "snd (DecodeString hexkey) = None \<and> ToECDSA sbm (fst (DecodeString hexkey)) = Inr k"
  using assms
  by (cases "DecodeString hexkey"; cases "ToECDSA sbm (fst (DecodeString hexkey))")
    (auto simp add: HexToECDSA_def split: if_splits)

lemma LoadECDSA_Open_error:
  "Open file = Inl e \<Longrightarrow> LoadECDSA Open ReadFull Close sbm file = Inl e"
  by (simp add: LoadECDSA_def)

lemma LoadECDSA_ReadFull_error:
  "Open file = Inr fd \<Longrightarrow> ReadFull fd 64 = Inl e \<Longrightarrow>
     LoadECDSA Open ReadFull Close sbm file = Inl e"
  by (simp add: LoadECDSA_def)

lemma LoadECDSA_hex_error:
  "Open file = Inr fd \<Longrightarrow> ReadFull fd 64 = Inr buf \<Longrightarrow> snd (DecodeString buf) = Some e \<Longrightarrow>
     LoadECDSA Open ReadFull Close sbm file = Inl e"
  by (cases "DecodeString buf") (simp add: LoadECDSA_def)

lemma LoadECDSA_key_error:
  "Open file = Inr fd \<Longrightarrow> ReadFull fd 64 = Inr buf \<Longrightarrow> snd (DecodeString buf) = None \<Longrightarrow>
     ToECDSA sbm (fst (DecodeString buf)) = Inl e \<Longrightarrow>
     LoadECDSA Open ReadFull Close sbm file = Inl (KeyError e)"
  by (cases "DecodeString buf") (simp add: LoadECDSA_def)

lemma LoadECDSA_success:
  assumes "LoadECDSA Open ReadFull Close sbm file = Inr k"
  shows "\<exists>fd buf. Open file = Inr fd \<and> ReadFull fd 64 = Inr buf \<and>
           snd (DecodeString buf) = None \<and> ToECDSA sbm (fst (DecodeString buf)) = Inr k"
  using assms
  by (auto simp add: LoadECDSA_def Let_def map_sum_def split: sum.splits prod.splits option.splits)

lemma LoadECDSA_ignores_Close:
  "LoadECDSA Open ReadFull Close sbm file = LoadECDSA Open ReadFull (\<lambda>fd. None) sbm file"
  by (cases "Open file") (simp_all add: LoadECDSA_def Let_def)

lemma ToECDSAUnsafe_None_iff:
  "ToECDSAUnsafe sbm d = None \<longleftrightarrow> (\<exists>e. toECDSA sbm d False = Inl e)"
  by (cases "toECDSA sbm d False") (simp_all add: ToECDSAUnsafe_def)

lemma ToECDSAUnsafe_out_of_range:
  "secp256k1N \<le> SetBytes d \<or> SetBytes d \<le> 0 \<Longrightarrow> ToECDSAUnsafe sbm d = None"
  using secp256k1N_pos by (auto simp add: ToECDSAUnsafe_def toECDSA_def Let_def)

lemma CreateAddress_ignores_error:
  "CreateAddress EncodeToBytes squeeze addr nonce =
     Inr (drop 12 (Keccak256 squeeze [fst (EncodeToBytes addr nonce)]))"
  by (cases "EncodeToBytes addr nonce")
    (simp add: CreateAddress_def digest_low_bytes BytesToAddress_exact length_Keccak256)

lemma Decode_zeros: "Decode (replicate 64 48) = (replicate 32 0, None)"
  by code_simp

lemma Decode_one: "Decode (replicate 62 48 @ [48, 49]) = (0 # bytes_one_31, None)"
  by code_simp

lemma Decode_not_hex: "Decode (replicate 64 122) = ([], Some (HexError (InvalidByteError 122)))"
  by code_simp

lemma ToECDSA_sample_zero: "ToECDSA sample_ScalarBaseMult (replicate 32 0) = Inl KeyNonPositive"
  by (simp add: ToECDSA_def toECDSA_def SetBytes_replicate_zero secp256k1N_def)

lemma ToECDSA_sample_one:
  "ToECDSA sample_ScalarBaseMult (0 # bytes_one_31) =
     Inr \<lparr>Curve = S256, X = Some secp256k1Gx, Y = Some secp256k1Gy, D = 1\<rparr>"
proof -
  have "length (0 # bytes_one_31) = 32" by (simp add: bytes_one_31_def)
  then show ?thesis
    by (simp add: ToECDSA_def toECDSA_def sample_ScalarBaseMult_def
        SetBytes_zero_Cons SetBytes_bytes_one_31 secp256k1N_def)
qed

section \<open>Errors that are dropped\<close>

text \<open>
  C9, as the spec states it, fails: lenient decode does not surface the error.  For the
  32 bytes of \<open>N\<close> the decoder's error is \<open>KeyOutOfRange\<close>, for the empty input it is
  \<open>KeyNonPositive\<close>, and \<open>ToECDSAUnsafe\<close> returns the same absent key for both.
\<close>

theorem ToECDSAUnsafe_discards_error:
  "toECDSA sample_ScalarBaseMult bytes_N False = Inl KeyOutOfRange \<and>
   toECDSA sample_ScalarBaseMult [] False = Inl KeyNonPositive \<and>
   ToECDSAUnsafe sample_ScalarBaseMult bytes_N = None \<and>
   ToECDSAUnsafe sample_ScalarBaseMult [] = None"
  by (simp add: ToECDSAUnsafe_def toECDSA_def SetBytes_bytes_N SetBytes_Nil secp256k1N_def)

text \<open>
  C9, amended.  Apart from the two projections, which return the empty byte sequence for
  an absent key, the operations that drop an error are lenient decode and
  \<open>CreateAddress\<close>: lenient decode returns an absent key exactly when the decoder fails,
  in particular for a scalar that is out of range or not positive, and \<open>CreateAddress\<close>
  computes its result from the encoder's bytes whatever error comes with them.  Every
  other operation that can fail returns the failure to its caller.  Strict decode
  returns the decoder's error, and a key only when no check failed.  \<open>HexToECDSA\<close>
  fails with its own error on a string of odd length or with a character that is not a
  hex digit, and else with the decoder's error.  \<open>LoadECDSA\<close> returns the error of
  opening, of reading, of the hex decoder, or of the key decoder, whichever comes first,
  and a key only when all four succeeded; the one result it does not look at is that of
  the deferred \<open>Close\<close>.  \<open>SaveECDSA\<close> returns what writing the file returns,
  \<open>UnmarshalPubkey\<close> fails when the curve returns no point, and \<open>GenerateKey\<close> returns
  what the library's key generation returns.
\<close>

theorem errors_returned_or_dropped:
  "ToECDSA sbm d = toECDSA sbm d True \<and>
   (\<forall>k. ToECDSA sbm d = Inr k \<longrightarrow>
      length d = 32 \<and> 0 < SetBytes d \<and> SetBytes d < secp256k1N \<and> fst (sbm d) \<noteq> None) \<and>
   (odd (length hexkey) \<or> (\<exists>c \<in> set hexkey. fromHexChar c = None) \<longrightarrow>
      HexToECDSA sbm hexkey = Inl InvalidHexString) \<and>
   (\<forall>e. snd (DecodeString hexkey) = None \<and> ToECDSA sbm (fst (DecodeString hexkey)) = Inl e \<longrightarrow>
      HexToECDSA sbm hexkey = Inl (KeyError e)) \<and>
   (\<forall>k. HexToECDSA sbm hexkey = Inr k \<longrightarrow>
      snd (DecodeString hexkey) = None \<and> ToECDSA sbm (fst (DecodeString hexkey)) = Inr k) \<and>
   (\<forall>e. Open fname = Inl e \<longrightarrow> LoadECDSA Open ReadFull Close sbm fname = Inl e) \<and>
   (\<forall>fd e. Open fname = Inr fd \<and> ReadFull fd 64 = Inl e \<longrightarrow>
      LoadECDSA Open ReadFull Close sbm fname = Inl e) \<and>
   (\<forall>fd buf e. Open fname = Inr fd \<and> ReadFull fd 64 = Inr buf \<and>
      snd (DecodeString buf) = Some e \<longrightarrow>
      LoadECDSA Open ReadFull Close sbm fname = Inl e) \<and>
   (\<forall>fd buf e. Open fname = Inr fd \<and> ReadFull fd 64 = Inr buf \<and>
      snd (DecodeString buf) = None \<and> ToECDSA sbm (fst (DecodeString buf)) = Inl e \<longrightarrow>
      LoadECDSA Open ReadFull Close sbm fname = Inl (KeyError e)) \<and>
   (\<forall>k. LoadECDSA Open ReadFull Close sbm fname = Inr k \<longrightarrow>
      (\<exists>fd buf. Open fname = Inr fd \<and> ReadFull fd 64 = Inr buf \<and>
         snd (DecodeString buf) = None \<and> ToECDSA sbm (fst (DecodeString buf)) = Inr k)) \<and>
   SaveECDSA WriteFile fname key = WriteFile fname (EncodeToString (FromECDSA key)) 384 \<and>
   (fst (Unmarshal pub) = None \<longrightarrow> UnmarshalPubkey Unmarshal pub = Inl errInvalidPubkey) \<and>
   GenerateKey ecdsa_GenerateKey Reader = ecdsa_GenerateKey S256 Reader \<and>
   (ToECDSAUnsafe sbm d = None \<longleftrightarrow> (\<exists>e. toECDSA sbm d False = Inl e)) \<and>
   (secp256k1N \<le> SetBytes d \<or> SetBytes d \<le> 0 \<longrightarrow> ToECDSAUnsafe sbm d = None) \<and>
   CreateAddress EncodeToBytes squeeze addr nonce =
     Inr (drop 12 (Keccak256 squeeze [fst (EncodeToBytes addr nonce)])) \<and>
   LoadECDSA Open ReadFull Close sbm fname = LoadECDSA Open ReadFull (\<lambda>fd. None) sbm fname \<and>
   FromECDSA None = [] \<and> FromECDSAPub Marshal None = []"
proof -
  have strict: "ToECDSA sbm d = toECDSA sbm d True"
    by (simp add: ToECDSA_def)
  have strict_ok: "\<forall>k. ToECDSA sbm d = Inr k \<longrightarrow>
      length d = 32 \<and> 0 < SetBytes d \<and> SetBytes d < secp256k1N \<and> fst (sbm d) \<noteq> None"
    by (intro allI impI) (simp add: ToECDSA_success)
  have hex_bad: "odd (length hexkey) \<or> (\<exists>c \<in> set hexkey. fromHexChar c = None) \<longrightarrow>
      HexToECDSA sbm hexkey = Inl InvalidHexString"
    by (intro impI) (rule HexToECDSA_bad_hex)
  have hex_key: "\<forall>e. snd (DecodeString hexkey) = None \<and>
      ToECDSA sbm (fst (DecodeString hexkey)) = Inl e \<longrightarrow>
      HexToECDSA sbm hexkey = Inl (KeyError e)"
    by (intro allI impI) (simp add: HexToECDSA_key_error)
  have hex_ok: "\<forall>k. HexToECDSA sbm hexkey = Inr k \<longrightarrow>
      snd (DecodeString hexkey) = None \<and> ToECDSA sbm (fst (DecodeString hexkey)) = Inr k"
    by (intro allI impI) (rule HexToECDSA_success)
  have load_open: "\<forall>e. Open fname = Inl e \<longrightarrow> LoadECDSA Open ReadFull Close sbm fname = Inl e"
    by (intro allI impI) (rule LoadECDSA_Open_error)
  have load_read: "\<forall>fd e. Open fname = Inr fd \<and> ReadFull fd 64 = Inl e \<longrightarrow>
      LoadECDSA Open ReadFull Close sbm fname = Inl e"
    by (intro allI impI) (simp add: LoadECDSA_ReadFull_error)
  have load_hex: "\<forall>fd buf e. Open fname = Inr fd \<and> ReadFull fd 64 = Inr buf \<and>
      snd (DecodeString buf) = Some e \<longrightarrow>
      LoadECDSA Open ReadFull Close sbm fname = Inl e"
    by (intro allI impI) (simp add: LoadECDSA_hex_error)
  have load_key: "\<forall>fd buf e. Open fname = Inr fd \<and> ReadFull fd 64 = Inr buf \<and>
      snd (DecodeString buf) = None \<and> ToECDSA sbm (fst (DecodeString buf)) = Inl e \<longrightarrow>
      LoadECDSA Open ReadFull Close sbm fname = Inl (KeyError e)"
    by (intro allI impI) (simp add: LoadECDSA_key_error)
  have load_ok: "\<forall>k. LoadECDSA Open ReadFull Close sbm fname = Inr k \<longrightarrow>
      (\<exists>fd buf. Open fname = Inr fd \<and> ReadFull fd 64 = Inr buf \<and>
         snd (DecodeString buf) = None \<and> ToECDSA sbm (fst (DecodeString buf)) = Inr k)"
    by (intro allI impI) (rule LoadECDSA_success)
  have save: "SaveECDSA WriteFile fname key = WriteFile fname (EncodeToString (FromECDSA key)) 384"
    by (simp add: SaveECDSA_def)
  have unm: "fst (Unmarshal pub) = None \<longrightarrow> UnmarshalPubkey Unmarshal pub = Inl errInvalidPubkey"
    by (cases "Unmarshal pub") (simp add: UnmarshalPubkey_def)
  have gen: "GenerateKey ecdsa_GenerateKey Reader = ecdsa_GenerateKey S256 Reader"
    by (simp add: GenerateKey_def)
  have unsafe: "ToECDSAUnsafe sbm d = None \<longleftrightarrow> (\<exists>e. toECDSA sbm d False = Inl e)"
    by (rule ToECDSAUnsafe_None_iff)
  have range: "secp256k1N \<le> SetBytes d \<or> SetBytes d \<le> 0 \<longrightarrow> ToECDSAUnsafe sbm d = None"
    by (intro impI) (rule ToECDSAUnsafe_out_of_range)
  have proj1: "FromECDSA None = []"
    by (simp add: FromECDSA_def)
  have proj2: "FromECDSAPub Marshal None = []"
    by (simp add: FromECDSAPub_def)
  show ?thesis
    by (intro conjI)
      (fact strict strict_ok hex_bad hex_key hex_ok load_open load_read load_hex load_key
        load_ok save unm gen unsafe range CreateAddress_ignores_error
        LoadECDSA_ignores_Close proj1 proj2)+
qed

theorem errors_returned_or_dropped_witness:
  "secp256k1N \<le> SetBytes bytes_N_plus_1 \<and>
   ToECDSAUnsafe sample_ScalarBaseMult bytes_N_plus_1 = None \<and>
   SetBytes (replicate 32 0) \<le> 0 \<and>
   ToECDSAUnsafe sample_ScalarBaseMult (replicate 32 0) = None \<and>
   odd (length [48 :: byte]) \<and>
   HexToECDSA sample_ScalarBaseMult [48] = Inl InvalidHexString \<and>
   fromHexChar 122 = None \<and>
   HexToECDSA sample_ScalarBaseMult [122, 122] = Inl InvalidHexString \<and>
   snd (DecodeString (replicate 64 48)) = None \<and>
   ToECDSA sample_ScalarBaseMult (fst (DecodeString (replicate 64 48))) = Inl KeyNonPositive \<and>
   HexToECDSA sample_ScalarBaseMult (replicate 64 48) = Inl (KeyError KeyNonPositive) \<and>
   sample_Open ''missing'' = Inl (Other ''no such file'') \<and>
   LoadECDSA sample_Open sample_ReadFull (\<lambda>fd. None) sample_ScalarBaseMult ''missing'' =
     Inl (Other ''no such file'') \<and>
   sample_ReadFull [48, 49] 64 = Inl (Other ''unexpected EOF'') \<and>
   LoadECDSA sample_Open sample_ReadFull (\<lambda>fd. None) sample_ScalarBaseMult ''short'' =
     Inl (Other ''unexpected EOF'') \<and>
   snd (DecodeString (replicate 64 122)) = Some (HexError (InvalidByteError 122)) \<and>
   LoadECDSA sample_Open sample_ReadFull (\<lambda>fd. None) sample_ScalarBaseMult ''nothex'' =
     Inl (HexError (InvalidByteError 122)) \<and>
   LoadECDSA sample_Open sample_ReadFull (\<lambda>fd. None) sample_ScalarBaseMult ''zero'' =
     Inl (KeyError KeyNonPositive) \<and>
   SaveECDSA sample_WriteFile ''readonly''
       (Some \<lparr>Curve = S256, X = Some secp256k1Gx, Y = Some secp256k1Gy, D = 1\<rparr>) =
     Some (Other ''permission denied'') \<and>
   HexToECDSA sample_ScalarBaseMult (replicate 62 48 @ [48, 49]) =
     Inr \<lparr>Curve = S256, X = Some secp256k1Gx, Y = Some secp256k1Gy, D = 1\<rparr> \<and>
   snd (DecodeString (replicate 62 48 @ [48, 49])) = None \<and>
   ToECDSA sample_ScalarBaseMult (fst (DecodeString (replicate 62 48 @ [48, 49]))) =
     Inr \<lparr>Curve = S256, X = Some secp256k1Gx, Y = Some secp256k1Gy, D = 1\<rparr> \<and>
   LoadECDSA sample_Open sample_ReadFull (\<lambda>fd. None) sample_ScalarBaseMult ''key'' =
     Inr \<lparr>Curve = S256, X = Some secp256k1Gx, Y = Some secp256k1Gy, D = 1\<rparr> \<and>
   (\<exists>fd buf. sample_Open ''key'' = Inr fd \<and> sample_ReadFull fd 64 = Inr buf \<and>
      snd (DecodeString buf) = None \<and>
      ToECDSA sample_ScalarBaseMult (fst (DecodeString buf)) =
        Inr \<lparr>Curve = S256, X = Some secp256k1Gx, Y = Some secp256k1Gy, D = 1\<rparr>) \<and>
   fst (sample_Unmarshal (0 # replicate 64 0)) = None \<and>
   UnmarshalPubkey sample_Unmarshal (0 # replicate 64 0) = Inl errInvalidPubkey \<and>
   GenerateKey (\<lambda>c r. Inl (Other ''no entropy'')) () = Inl (Other ''no entropy'') \<and>
   CreateAddress (\<lambda>b n. ([], Some KeyNonPositive)) sample_squeeze (replicate 20 0) 0 =
     CreateAddress (\<lambda>b n. ([], None :: key_error option)) sample_squeeze (replicate 20 0) 0"
proof -
  have o1: "sample_Open ''missing'' = Inl (Other ''no such file'')"
    by (simp add: sample_Open_def)
  have o2: "sample_Open ''short'' = Inr [48, 49]"
    by (simp add: sample_Open_def)
  have o3: "sample_Open ''nothex'' = Inr (replicate 64 122)"
    by (simp add: sample_Open_def)
  have o4: "sample_Open ''zero'' = Inr (replicate 64 48)"
    by (simp add: sample_Open_def)
  have r2: "sample_ReadFull [48, 49] 64 = Inl (Other ''unexpected EOF'')"
    by (simp add: sample_ReadFull_def)
  have r3: "sample_ReadFull (replicate 64 122) 64 = Inr (replicate 64 122)"
    by (simp add: sample_ReadFull_def)
  have r4: "sample_ReadFull (replicate 64 48) 64 = Inr (replicate 64 48)"
    by (simp add: sample_ReadFull_def)
  have d3: "DecodeString (replicate 64 122) = ([], Some (HexError (InvalidByteError 122)))"
    by (simp add: DecodeString_def Decode_not_hex)
  have d4: "DecodeString (replicate 64 48) = (replicate 32 0, None)"
    by (simp add: DecodeString_def Decode_zeros)
  have h: "fromHexChar 122 = None"
    by (simp add: fromHexChar_def)
  have d5: "DecodeString (replicate 62 48 @ [48, 49]) = (0 # bytes_one_31, None)"
    by (simp add: DecodeString_def Decode_one)
  have hx: "HexToECDSA sample_ScalarBaseMult (replicate 62 48 @ [48, 49]) =
      Inr \<lparr>Curve = S256, X = Some secp256k1Gx, Y = Some secp256k1Gy, D = 1\<rparr>"
    by (simp add: HexToECDSA_def d5 ToECDSA_sample_one)
  have ld: "LoadECDSA sample_Open sample_ReadFull (\<lambda>fd. None) sample_ScalarBaseMult ''key'' =
      Inr \<lparr>Curve = S256, X = Some secp256k1Gx, Y = Some secp256k1Gy, D = 1\<rparr>"
    by (simp add: LoadECDSA_def sample_Open_def sample_ReadFull_def d5 ToECDSA_sample_one)
  have u: "sample_Unmarshal (0 # replicate 64 0) = (None, None)"
    by (simp add: sample_Unmarshal_def sample_Marshal_def)
  have w: "sample_WriteFile ''readonly''
      (EncodeToString (FromECDSA
        (Some \<lparr>Curve = S256, X = Some secp256k1Gx, Y = Some secp256k1Gy, D = 1\<rparr>))) 384 =
      Some (Other ''permission denied'')"
    by (simp add: sample_WriteFile_def)
  note inst = errors_returned_or_dropped
      [where sbm = sample_ScalarBaseMult and ReadFull = sample_ReadFull
        and Open = sample_Open and Close = "\<lambda>fd. None"
        and WriteFile = sample_WriteFile and Unmarshal = sample_Unmarshal
        and pub = "0 # replicate 64 0" and Reader = "()"
        and ecdsa_GenerateKey = "\<lambda>c r. Inl (Other ''no entropy'')"
        and key = "Some \<lparr>Curve = S256, X = Some secp256k1Gx, Y = Some secp256k1Gy, D = 1\<rparr>"
        and squeeze = sample_squeeze and addr = "replicate 20 0" and nonce = 0
        and Marshal = sample_Marshal]
  note inst_ok = inst [where d = "0 # bytes_one_31" and hexkey = "replicate 62 48 @ [48, 49]"
        and fname = "''key''" and EncodeToBytes = "\<lambda>b n. ([], None :: key_error option)"]
  have hx_ok: "snd (DecodeString (replicate 62 48 @ [48, 49])) = None \<and>
      ToECDSA sample_ScalarBaseMult (fst (DecodeString (replicate 62 48 @ [48, 49]))) =
        Inr \<lparr>Curve = S256, X = Some secp256k1Gx, Y = Some secp256k1Gy, D = 1\<rparr>"
    using inst_ok hx by blast
  have ld_ok: "\<exists>fd buf. sample_Open ''key'' = Inr fd \<and> sample_ReadFull fd 64 = Inr buf \<and>
      snd (DecodeString buf) = None \<and>
      ToECDSA sample_ScalarBaseMult (fst (DecodeString buf)) =
        Inr \<lparr>Curve = S256, X = Some secp256k1Gx, Y = Some secp256k1Gy, D = 1\<rparr>"
    using inst_ok ld by blast
  have fails: "ToECDSAUnsafe sample_ScalarBaseMult bytes_N_plus_1 = None \<and>
      ToECDSAUnsafe sample_ScalarBaseMult (replicate 32 0) = None \<and>
      HexToECDSA sample_ScalarBaseMult [48] = Inl InvalidHexString \<and>
      HexToECDSA sample_ScalarBaseMult [122, 122] = Inl InvalidHexString \<and>
      HexToECDSA sample_ScalarBaseMult (replicate 64 48) = Inl (KeyError KeyNonPositive) \<and>
      LoadECDSA sample_Open sample_ReadFull (\<lambda>fd. None) sample_ScalarBaseMult ''missing'' =
        Inl (Other ''no such file'') \<and>
      LoadECDSA sample_Open sample_ReadFull (\<lambda>fd. None) sample_ScalarBaseMult ''short'' =
        Inl (Other ''unexpected EOF'') \<and>
      LoadECDSA sample_Open sample_ReadFull (\<lambda>fd. None) sample_ScalarBaseMult ''nothex'' =
        Inl (HexError (InvalidByteError 122)) \<and>
      LoadECDSA sample_Open sample_ReadFull (\<lambda>fd. None) sample_ScalarBaseMult ''zero'' =
        Inl (KeyError KeyNonPositive) \<and>
      SaveECDSA sample_WriteFile ''readonly''
          (Some \<lparr>Curve = S256, X = Some secp256k1Gx, Y = Some secp256k1Gy, D = 1\<rparr>) =
        Some (Other ''permission denied'') \<and>
      UnmarshalPubkey sample_Unmarshal (0 # replicate 64 0) = Inl errInvalidPubkey \<and>
      GenerateKey (\<lambda>c r. Inl (Other ''no entropy'')) () = Inl (Other ''no entropy'') \<and>
      CreateAddress (\<lambda>b n. ([], Some KeyNonPositive)) sample_squeeze (replicate 20 0) 0 =
        CreateAddress (\<lambda>b n. ([], None :: key_error option)) sample_squeeze (replicate 20 0) 0"
    using inst [where d = bytes_N_plus_1 and hexkey = "[48]" and fname = "''missing''"
        and EncodeToBytes = "\<lambda>b n. ([], Some KeyNonPositive)"]
      inst [where d = "replicate 32 0" and hexkey = "[122, 122]" and fname = "''short''"
        and EncodeToBytes = "\<lambda>b n. ([], None :: key_error option)"]
      inst [where d = "replicate 32 0" and hexkey = "replicate 64 48" and fname = "''nothex''"
        and EncodeToBytes = "\<lambda>b n. ([], None :: key_error option)"]
      inst [where d = "replicate 32 0" and hexkey = "replicate 64 48" and fname = "''zero''"
        and EncodeToBytes = "\<lambda>b n. ([], None :: key_error option)"]
      inst [where d = "replicate 32 0" and hexkey = "replicate 64 48" and fname = "''readonly''"
        and EncodeToBytes = "\<lambda>b n. ([], None :: key_error option)"]
      o1 o2 o3 o4 r2 r3 r4 d3 d4 h u w ToECDSA_sample_zero
    by (simp add: SetBytes_bytes_N_plus_1 SetBytes_replicate_zero)
  show ?thesis
    using fails hx hx_ok ld ld_ok o1 r2 d3 d4 h u ToECDSA_sample_zero
    by (simp add: SetBytes_bytes_N_plus_1 SetBytes_replicate_zero)
qed

end
